theory Spec2Isabelle
  imports Complex_Main "HOL-Library.AList" "HOL-Library.Sublist" "HOL-Library.Word"
begin

section \<open>Values of the host language\<close>

text \<open>
  The task service and the dashboard hooks are TypeScript. A date is the number of
  milliseconds since the epoch; the store's timestamp is a value of its own type with a
  conversion \<open>toDate\<close>. Everything an \<open>await\<close> can reject with and every \<open>throw\<close> is a
  value of \<open>Exn\<close>; an asynchronous function returns \<open>Exn + 'a\<close>, \<open>Inl\<close> for a rejection.
\<close>

type_synonym Date = int

text \<open>
  A string of the host language is a sequence of UTF-16 code units. Document fields, ids,
  passwords and queries are such strings; \<open>js\<close> writes one from ASCII text. The messages
  and error codes the program itself writes stay plain text.
\<close>

type_synonym jsstring = "16 word list"

definition js :: "string \<Rightarrow> jsstring" where
  "js s = map of_char s"

datatype Timestamp = Timestamp (toDate: Date)

datatype Exn =
    FirestoreError string  \<comment> \<open>an error of the store, with its code\<close>
  | Error string           \<comment> \<open>\<open>new Error(message)\<close>\<close>
  | TypeError              \<comment> \<open>calling a member that is not a function\<close>
  | Raised                 \<comment> \<open>an exception thrown by a foreign \<open>toDate\<close> method\<close>

text \<open>
  The argument of \<open>convertTimestamp\<close> has type \<open>unknown\<close>. The function inspects three
  things: whether the value is an instance of the store's \<open>Timestamp\<close>, whether it is a
  \<open>Date\<close>, and whether it is some other object that has a member called \<open>toDate\<close>. An
  object of the last kind is described by what the member is: not a function, a function
  that throws, or a function that returns a value.
\<close>

datatype JSValue =
    Undefined
  | Null
  | Primitive               \<comment> \<open>a boolean, number, string, symbol or function: \<open>typeof\<close> is not \<open>'object'\<close>\<close>
  | TimestampV Timestamp    \<comment> \<open>\<open>instanceof Timestamp\<close>\<close>
  | DateV Date              \<comment> \<open>\<open>instanceof Date\<close>\<close>
  | Obj_without_toDate      \<comment> \<open>an object, \<open>'toDate' in\<close> is false\<close>
  | Obj_toDate_not_function \<comment> \<open>an object whose member \<open>toDate\<close> cannot be called\<close>
  | Obj_toDate_throws       \<comment> \<open>an object whose method \<open>toDate\<close> throws\<close>
  | Obj_toDate_returns JSValue \<comment> \<open>an object whose method \<open>toDate\<close> returns the value\<close>

section \<open>The task record\<close>

datatype TaskStatus = Completed | InProgress | Pending | Blocked

datatype TaskPriority = Low | Medium | High | Critical

datatype TaskCategory =
  Auth | Media | Engagement | Search | UI | Personalization | Subscription | Marketplace | Advanced

text \<open>
  The data of a stored document is schemaless (\<open>DocumentData\<close>): every field may be absent,
  and a partial write names only some of them (\<open>Partial<Omit<Task, 'id'>>\<close>). A \<open>Task\<close> is
  such data together with the document's id, obtained by the unchecked cast \<open>as Task\<close>; the
  hooks read its fields with \<open>?.\<close> and \<open>||\<close> accordingly. \<open>lastUpdated\<close> holds whatever
  \<open>convertTimestamp\<close> returned (\<open>Undefined\<close> when absent); \<open>createdAt\<close> and \<open>order\<close>
  are the two extra fields the seeding writes. Hours are numbers, idealised as reals.
\<close>

record DocumentData =
  day :: "int option"
  title :: "jsstring option"
  module :: "jsstring option"
  status :: "TaskStatus option"
  priority :: "TaskPriority option"
  category :: "TaskCategory option"
  description :: "jsstring option"
  findings :: "jsstring option"
  assignedTo :: "jsstring option"
  estimatedHours :: "real option"
  actualHours :: "real option"
  lastUpdated :: JSValue
  tags :: "jsstring list option"
  createdAt :: "Timestamp option"
  order :: "nat option"

record Task = DocumentData +
  id' :: jsstring

definition no_data :: DocumentData where
  "no_data = \<lparr>day = None, title = None, module = None, status = None, priority = None,
     category = None, description = None, findings = None, assignedTo = None,
     estimatedHours = None, actualHours = None, lastUpdated = Undefined, tags = None,
     createdAt = None, order = None\<rparr>"

definition override :: "'a option \<Rightarrow> 'a option \<Rightarrow> 'a option" where
  "override old new = (case new of None \<Rightarrow> old | Some v \<Rightarrow> Some v)"

definition spread :: "'m DocumentData_scheme \<Rightarrow> DocumentData \<Rightarrow> 'm DocumentData_scheme" where
  \<comment> \<open>\<open>{...t, ...p}\<close>: the fields \<open>p\<close> has replace those of \<open>t\<close>\<close>
  "spread t p = t\<lparr>
     day := override (day t) (day p),
     title := override (title t) (title p),
     module := override (module t) (module p),
     status := override (status t) (status p),
     priority := override (priority t) (priority p),
     category := override (category t) (category p),
     description := override (description t) (description p),
     findings := override (findings t) (findings p),
     assignedTo := override (assignedTo t) (assignedTo p),
     estimatedHours := override (estimatedHours t) (estimatedHours p),
     actualHours := override (actualHours t) (actualHours p),
     lastUpdated := (if lastUpdated p = Undefined then lastUpdated t else lastUpdated p),
     tags := override (tags t) (tags p),
     createdAt := override (createdAt t) (createdAt p),
     order := override (order t) (order p)\<rparr>"

section \<open>The remote document store\<close>

text \<open>
  Modelled from the spec: the document store is an external service, and its client library
  is not part of the sources. The collection \<open>wecinema_tasks\<close> is an association list
  from document ids to data. Every remote call takes a \<open>fault\<close>: \<open>Some e\<close> when the call
  is rejected with \<open>e\<close> (network, permission), \<open>None\<close> when the store serves it. A query
  ordered by \<open>day\<close> returns the documents that have the field, in ascending order; a count
  limit keeps a prefix. "Update existing fields" fails with a not-found error on an absent
  document, "merge-create" creates it. A batch is committed as a whole or not at all.
\<close>

type_synonym Firestore = "(jsstring \<times> DocumentData) list"

type_synonym QuerySnapshot = "(jsstring \<times> DocumentData) list"

record Query =
  orderByDay :: bool
  limitTo :: "nat option"

definition day_key :: "jsstring \<times> DocumentData \<Rightarrow> int" where
  "day_key = (\<lambda>(i, d). case day d of None \<Rightarrow> 0 | Some n \<Rightarrow> n)"

definition run_query :: "Query \<Rightarrow> Firestore \<Rightarrow> QuerySnapshot" where
  \<comment> \<open>Modelled from the spec: ordered list query, sort key ascending, optional count limit\<close>
  "run_query q fs =
     (let ds = (if orderByDay q then sort_key day_key (filter (\<lambda>(i, d). day d \<noteq> None) fs) else fs)
      in case limitTo q of None \<Rightarrow> ds | Some n \<Rightarrow> take n ds)"

definition getDocs :: "Exn option \<Rightarrow> Query \<Rightarrow> Firestore \<Rightarrow> Exn + QuerySnapshot" where
  \<comment> \<open>Modelled from the spec: a read that may fail with a store error\<close>
  "getDocs fault q fs = (case fault of Some e \<Rightarrow> Inl e | None \<Rightarrow> Inr (run_query q fs))"

definition updateDoc :: "Exn option \<Rightarrow> jsstring \<Rightarrow> DocumentData \<Rightarrow> Firestore \<Rightarrow> Exn + Firestore" where
  \<comment> \<open>Modelled from the spec: "update existing fields", fails if the document is absent\<close>
  "updateDoc fault ref p fs =
     (case fault of
        Some e \<Rightarrow> Inl e
      | None \<Rightarrow>
          (case map_of fs ref of
             None \<Rightarrow> Inl (FirestoreError ''not-found'')
           | Some old \<Rightarrow> Inr (AList.update ref (spread old p) fs)))"

definition setDoc_merge :: "Exn option \<Rightarrow> jsstring \<Rightarrow> DocumentData \<Rightarrow> Firestore \<Rightarrow> Exn + Firestore" where
  \<comment> \<open>Modelled from the spec: "merge-create", \<open>setDoc(ref, data, { merge: true })\<close>\<close>
  "setDoc_merge fault ref p fs =
     (case fault of
        Some e \<Rightarrow> Inl e
      | None \<Rightarrow>
          (case map_of fs ref of
             None \<Rightarrow> Inr (AList.update ref (spread no_data p) fs)
           | Some old \<Rightarrow> Inr (AList.update ref (spread old p) fs)))"

definition batch_commit :: "Exn option \<Rightarrow> (jsstring \<times> DocumentData) list \<Rightarrow> Firestore \<Rightarrow> Exn + Firestore" where
  \<comment> \<open>Modelled from the spec: an atomic batched write; the batch holds \<open>set\<close> operations,
      applied in the order they were added\<close>
  "batch_commit fault sets fs =
     (case fault of
        Some e \<Rightarrow> Inl e
      | None \<Rightarrow> Inr (foldl (\<lambda>acc (ref, d). AList.update ref d acc) fs sets))"

section \<open>The task service\<close>

subsection \<open>Module state\<close>

record Service =
  tasksCache :: "Task list option"  \<comment> \<open>\<open>let tasksCache: Task[] | null = null\<close>\<close>
  lastCacheTime :: int              \<comment> \<open>\<open>let lastCacheTime = 0\<close>\<close>

definition CACHE_DURATION :: int where
  "CACHE_DURATION = 30000"

definition initial_service :: Service where
  "initial_service = \<lparr>tasksCache = None, lastCacheTime = 0\<rparr>"

subsection \<open>convertTimestamp\<close>

text \<open>
  The first argument is the clock, read by \<open>new Date()\<close> in the last branch. The tests
  are made in the order of the source: \<open>instanceof Timestamp\<close>, \<open>instanceof Date\<close>, then
  \<open>timestamp && typeof timestamp === 'object' && 'toDate' in timestamp\<close>. Every object
  with a member \<open>toDate\<close> passes the third test, and the member is called as it is.
\<close>

fun convertTimestamp :: "Date \<Rightarrow> JSValue \<Rightarrow> Exn + JSValue" where
  "convertTimestamp now (TimestampV ts) = Inr (DateV (toDate ts))"
| "convertTimestamp now (DateV d) = Inr (DateV d)"
| "convertTimestamp now Obj_toDate_not_function = Inl TypeError"
| "convertTimestamp now Obj_toDate_throws = Inl Raised"
| "convertTimestamp now (Obj_toDate_returns v) = Inr v"
| "convertTimestamp now Undefined = Inr (DateV now)"
| "convertTimestamp now Null = Inr (DateV now)"
| "convertTimestamp now Primitive = Inr (DateV now)"
| "convertTimestamp now Obj_without_toDate = Inr (DateV now)"

subsection \<open>Documents to tasks\<close>

definition toTask :: "Date \<Rightarrow> jsstring \<times> DocumentData \<Rightarrow> Exn + Task" where
  \<comment> \<open>\<open>{ id: doc.id, ...data, lastUpdated: convertTimestamp(data.lastUpdated) } as Task\<close>\<close>
  "toTask now = (\<lambda>(i, d).
     case convertTimestamp now (lastUpdated d) of
       Inl e \<Rightarrow> Inl e
     | Inr v \<Rightarrow> Inr (DocumentData.extend (d\<lparr>lastUpdated := v\<rparr>) (Task.fields i)))"

fun mapE :: "('a \<Rightarrow> Exn + 'b) \<Rightarrow> 'a list \<Rightarrow> Exn + 'b list" where
  \<comment> \<open>\<open>docs.map(f)\<close> where \<open>f\<close> may throw: the first exception leaves the loop\<close>
  "mapE f [] = Inr []"
| "mapE f (x # xs) =
     (case f x of
        Inl e \<Rightarrow> Inl e
      | Inr y \<Rightarrow> (case mapE f xs of Inl e \<Rightarrow> Inl e | Inr ys \<Rightarrow> Inr (y # ys)))"

subsection \<open>checkTasksExist\<close>

definition checkTasksExist :: "Exn option \<Rightarrow> Firestore \<Rightarrow> Exn + bool" where
  "checkTasksExist fault fs =
     (case getDocs fault \<lparr>orderByDay = False, limitTo = Some 1\<rparr> fs of
        Inr snapshot \<Rightarrow> Inr (snapshot \<noteq> [])
      | Inl error \<Rightarrow> Inr False)"

subsection \<open>initializeTasks\<close>

definition initialTasks :: "Date \<Rightarrow> DocumentData list" where
  "initialTasks today = [
   \<lparr>day = Some 1, title = Some (js ''Authentication & Access Control''),
     module = Some (js ''Auth System''), status = Some Completed, priority = Some High,
     category = Some Auth,
     description = Some (js ''Email/Google OAuth, Session Handling, Role Protection.''),
     findings = Some (js ''System stable. No session leakage detected. Role-based access functioning correctly.''),
     assignedTo = Some (js ''Hamza Manzoor''), estimatedHours = Some 8, actualHours = Some 7,
     lastUpdated = DateV today, tags = Some [js ''security'', js ''oauth'', js ''testing''],
     createdAt = None, order = None\<rparr>,
   \<lparr>day = Some 2, title = Some (js ''Video & Script Upload System''), module = Some (js ''Storage''),
     status = Some Completed, priority = Some High, category = Some Media,
     description = Some (js ''Multi-format upload, metadata tagging, interruption handling.''),
     findings = Some (js ''Upload system stable. No data corruption. Metadata stored accurately.''),
     assignedTo = Some (js ''Hamza Manzoor''), estimatedHours = Some 10, actualHours = Some 12,
     lastUpdated = DateV today, tags = Some [js ''storage'', js ''upload'', js ''performance''],
     createdAt = None, order = None\<rparr>,
   \<lparr>day = Some 3, title = Some (js ''Engagement & Interaction''), module = Some (js ''Social''),
     status = Some Completed, priority = Some Medium, category = Some Engagement,
     description = Some (js ''Likes, Comments, Bookmarks, Real-time UI.''),
     findings = Some (js ''Engagement layer synchronized. Real-time updates working.''),
     assignedTo = Some (js ''Hamza Manzoor''), estimatedHours = Some 6, actualHours = Some 6,
     lastUpdated = DateV today, tags = Some [js ''real-time'', js ''social'', js ''ux''], createdAt = None,
     order = None\<rparr>,
   \<lparr>day = Some 4, title = Some (js ''Search & Discovery Engine''), module = Some (js ''Search''),
     status = Some Completed, priority = Some High, category = Some Search,
     description = Some (js ''Voice search, Filters, Graph data aggregation.''),
     findings = Some (js ''Search queries optimized. Filter logic verified. Graph data accurate.''),
     assignedTo = Some (js ''Hamza Manzoor''), estimatedHours = Some 12, actualHours = Some 14,
     lastUpdated = DateV today, tags = Some [js ''search'', js ''performance'', js ''algorithm''],
     createdAt = None, order = None\<rparr>,
   \<lparr>day = Some 5, title = Some (js ''UI/UX & Static Pages''), module = Some (js ''Frontend''),
     status = Some Completed, priority = Some Medium, category = Some UI,
     description = Some (js ''Dark Mode, Responsive Design, Legal Pages.''),
     findings = Some (js ''UI responsive across devices. Dark mode consistent.''),
     assignedTo = Some (js ''Hamza Manzoor''), estimatedHours = Some 8, actualHours = Some 7,
     lastUpdated = DateV today, tags = Some [js ''ui'', js ''responsive'', js ''design-system''],
     createdAt = None, order = None\<rparr>,
   \<lparr>day = Some 6, title = Some (js ''Personalization & User Data''), module = Some (js ''Data''),
     status = Some Completed, priority = Some Medium, category = Some Personalization,
     description = Some (js ''Watch history, Liked videos, Data isolation.''),
     findings = Some (js ''User data properly isolated. Personal dashboard stable.''),
     assignedTo = Some (js ''Hamza Manzoor''), estimatedHours = Some 6, actualHours = Some 5,
     lastUpdated = DateV today, tags = Some [js ''privacy'', js ''data'', js ''isolation''],
     createdAt = None, order = None\<rparr>,
   \<lparr>day = Some 7, title = Some (js ''Hypemode Role & Access''), module = Some (js ''Subscription''),
     status = Some InProgress, priority = Some Critical, category = Some Subscription,
     description = Some (js ''Role assignment (User/Studio), Feature access control.''),
     findings = Some (js ''Testing role switching and premium badge verification...''),
     assignedTo = Some (js ''Hamza Manzoor''), estimatedHours = Some 10, actualHours = Some 4,
     lastUpdated = DateV today, tags = Some [js ''subscription'', js ''roles'', js ''access-control''],
     createdAt = None, order = None\<rparr>,
   \<lparr>day = Some 8, title = Some (js ''PayPal Integration''), module = Some (js ''Payments''),
     status = Some Pending, priority = Some Critical, category = Some Subscription,
     description = Some (js ''Subscription flow, Webhooks, Expiry detection.''), findings = None,
     assignedTo = Some (js ''Hamza Manzoor''), estimatedHours = Some 12, actualHours = None,
     lastUpdated = DateV today, tags = Some [js ''payment'', js ''paypal'', js ''webhooks''],
     createdAt = None, order = None\<rparr>,
   \<lparr>day = Some 9, title = Some (js ''Subscription Edge Cases''), module = Some (js ''Payments''),
     status = Some Pending, priority = Some High, category = Some Subscription,
     description = Some (js ''Cancel/Renew logic, Duplicate payment prevention.''), findings = None,
     assignedTo = Some (js ''Hamza Manzoor''), estimatedHours = Some 8, actualHours = None,
     lastUpdated = DateV today, tags = Some [js ''edge-cases'', js ''payment'', js ''renewal''],
     createdAt = None, order = None\<rparr>,
   \<lparr>day = Some 10, title = Some (js ''Premium Feature Enforcement''), module = Some (js ''Access''),
     status = Some Pending, priority = Some High, category = Some Subscription,
     description = Some (js ''Seller dashboard restriction, Downgrade behavior.''), findings = None,
     assignedTo = Some (js ''Hamza Manzoor''), estimatedHours = Some 6, actualHours = None,
     lastUpdated = DateV today, tags = Some [js ''enforcement'', js ''premium'', js ''downgrade''],
     createdAt = None, order = None\<rparr>,
   \<lparr>day = Some 11, title = Some (js ''Seller Dashboard Functional''),
     module = Some (js ''Marketplace''), status = Some Pending, priority = Some High,
     category = Some Marketplace, description = Some (js ''CRUD listings, Visibility settings.''),
     findings = None, assignedTo = Some (js ''Hamza Manzoor''), estimatedHours = Some 14,
     actualHours = None, lastUpdated = DateV today,
     tags = Some [js ''seller'', js ''crud'', js ''dashboard''], createdAt = None, order = None\<rparr>,
   \<lparr>day = Some 12, title = Some (js ''Stripe Connect Setup''), module = Some (js ''Finance''),
     status = Some Pending, priority = Some Critical, category = Some Marketplace,
     description = Some (js ''Account connection, KYC, Webhook mapping.''), findings = None,
     assignedTo = Some (js ''Hamza Manzoor''), estimatedHours = Some 16, actualHours = None,
     lastUpdated = DateV today, tags = Some [js ''stripe'', js ''kyc'', js ''onboarding''],
     createdAt = None, order = None\<rparr>,
   \<lparr>day = Some 13, title = Some (js ''Earnings & Withdrawal''), module = Some (js ''Finance''),
     status = Some Pending, priority = Some High, category = Some Marketplace,
     description = Some (js ''Commission logic, Withdrawal requests.''), findings = None,
     assignedTo = Some (js ''Hamza Manzoor''), estimatedHours = Some 10, actualHours = None,
     lastUpdated = DateV today, tags = Some [js ''earnings'', js ''withdrawal'', js ''commission''],
     createdAt = None, order = None\<rparr>,
   \<lparr>day = Some 14, title = Some (js ''Offer & Order Management''),
     module = Some (js ''Marketplace''), status = Some Pending, priority = Some Medium,
     category = Some Marketplace,
     description = Some (js ''Accept/Reject offers, Order creation triggers.''), findings = None,
     assignedTo = Some (js ''Hamza Manzoor''), estimatedHours = Some 12, actualHours = None,
     lastUpdated = DateV today, tags = Some [js ''offers'', js ''orders'', js ''workflow''],
     createdAt = None, order = None\<rparr>,
   \<lparr>day = Some 15, title = Some (js ''Buyer Dashboard Testing''), module = Some (js ''Orders''),
     status = Some Pending, priority = Some Medium, category = Some Marketplace,
     description = Some (js ''Order states, Visibility, History.''), findings = None,
     assignedTo = Some (js ''Hamza Manzoor''), estimatedHours = Some 8, actualHours = None,
     lastUpdated = DateV today, tags = Some [js ''buyer'', js ''orders'', js ''history''],
     createdAt = None, order = None\<rparr>,
   \<lparr>day = Some 16, title = Some (js ''Order Lifecycle & Stripe''), module = Some (js ''Orders''),
     status = Some Pending, priority = Some High, category = Some Marketplace,
     description = Some (js ''Payment verification, State transitions.''), findings = None,
     assignedTo = Some (js ''Hamza Manzoor''), estimatedHours = Some 14, actualHours = None,
     lastUpdated = DateV today, tags = Some [js ''lifecycle'', js ''stripe'', js ''verification''],
     createdAt = None, order = None\<rparr>,
   \<lparr>day = Some 17, title = Some (js ''Buyer-Seller Messaging''), module = Some (js ''Chat''),
     status = Some Pending, priority = Some Medium, category = Some Marketplace,
     description = Some (js ''Real-time chat, Order-linked conversations.''), findings = None,
     assignedTo = Some (js ''Hamza Manzoor''), estimatedHours = Some 16, actualHours = None,
     lastUpdated = DateV today, tags = Some [js ''chat'', js ''real-time'', js ''messaging''],
     createdAt = None, order = None\<rparr>,
   \<lparr>day = Some 18, title = Some (js ''Video Editor & Processing''), module = Some (js ''Advanced''),
     status = Some Pending, priority = Some Low, category = Some Advanced,
     description = Some (js ''Editing workflow, Export validation, Memory optimization.''),
     findings = None, assignedTo = Some (js ''Hamza Manzoor''), estimatedHours = Some 20,
     actualHours = None, lastUpdated = DateV today,
     tags = Some [js ''video-editor'', js ''processing'', js ''memory''], createdAt = None,
     order = None\<rparr>,
   \<lparr>day = Some 19, title = Some (js ''AI Chatbot & Support''), module = Some (js ''Advanced''),
     status = Some Pending, priority = Some Medium, category = Some Advanced,
     description = Some (js ''AI accuracy, Escalation flows.''), findings = None,
     assignedTo = Some (js ''Hamza Manzoor''), estimatedHours = Some 18, actualHours = None,
     lastUpdated = DateV today, tags = Some [js ''ai'', js ''chatbot'', js ''support''], createdAt = None,
     order = None\<rparr>,
   \<lparr>day = Some 20, title = Some (js ''Final Audit & Launch Readiness''),
     module = Some (js ''Audit''), status = Some Pending, priority = Some Critical,
     category = Some Advanced, description = Some (js ''Full regression testing, Performance audit.''),
     findings = None, assignedTo = Some (js ''Hamza Manzoor''), estimatedHours = Some 24,
     actualHours = None, lastUpdated = DateV today,
     tags = Some [js ''audit'', js ''regression'', js ''launch''], createdAt = None, order = None\<rparr>
  ]"

definition digit :: "nat \<Rightarrow> char" where
  "digit n = ''0123456789'' ! (n mod 10)"

fun String :: "nat \<Rightarrow> string" where
  "String n = (if n < 10 then [digit n] else String (n div 10) @ [digit n])"

declare String.simps [simp del]

definition padStart :: "nat \<Rightarrow> char \<Rightarrow> string \<Rightarrow> string" where
  "padStart n c s = replicate (n - length s) c @ s"

definition docRef :: "nat \<Rightarrow> jsstring" where
  \<comment> \<open>\<open>`task_${String(index + 1).padStart(3, '0')}`\<close>\<close>
  "docRef index = js (''task_'' @ padStart 3 (CHR ''0'') (String (index + 1)))"

definition seed_batch :: "Date \<Rightarrow> Date \<Rightarrow> (jsstring \<times> DocumentData) list" where
  "seed_batch today now =
     map (\<lambda>(index, task).
            (docRef index,
             task\<lparr>lastUpdated := TimestampV (Timestamp now),
                   createdAt := Some (Timestamp now),
                   order := Some (index + 1)\<rparr>))
         (enumerate 0 (initialTasks today))"

text \<open>
  \<open>today\<close> is the clock at the \<open>new Date()\<close> of the table, \<open>now\<close> at \<open>Timestamp.now()\<close>;
  \<open>probe\<close> and \<open>commit\<close> are the faults of the existence probe and of the batch.
\<close>

definition initializeTasks ::
  "bool \<Rightarrow> Date \<Rightarrow> Date \<Rightarrow> Exn option \<Rightarrow> Exn option \<Rightarrow> Firestore \<Rightarrow> Service
     \<Rightarrow> (Exn + unit) \<times> Firestore \<times> Service" where
  "initializeTasks force today now probe commit fs sv =
     (case checkTasksExist probe fs of
        Inl error \<Rightarrow> (Inl (Error ''Failed to initialize tasks. Please try again.''), fs, sv)
      | Inr exists \<Rightarrow>
          if exists \<and> \<not> force then (Inr (), fs, sv)
          else
            (case batch_commit commit (seed_batch today now) fs of
               Inl error \<Rightarrow> (Inl (Error ''Failed to initialize tasks. Please try again.''), fs, sv)
             | Inr fs' \<Rightarrow> (Inr (), fs', sv\<lparr>tasksCache := None\<rparr>)))"

subsection \<open>fetchTasks\<close>

record FetchOptions =
  useCache :: "bool option"
  limit :: "nat option"

definition truthy :: "nat option \<Rightarrow> bool" where
  \<comment> \<open>\<open>limitCount ? \<dots> : \<dots>\<close>: absent and zero are false\<close>
  "truthy n = (case n of None \<Rightarrow> False | Some k \<Rightarrow> k \<noteq> 0)"

text \<open>
  The destructuring \<open>{ useCache = true, limit: limitCount } = options || {}\<close>, the test
  of the first \<open>if\<close>, and the body of the \<open>try\<close> block up to the \<open>map\<close>. \<open>now\<close> is the
  clock at the freshness test, \<open>now'\<close> the clock after the \<open>await\<close>.
\<close>

definition useCache_of :: "FetchOptions option \<Rightarrow> bool" where
  "useCache_of options =
     (case options of
        None \<Rightarrow> True
      | Some opts \<Rightarrow> (case useCache opts of None \<Rightarrow> True | Some b \<Rightarrow> b))"

definition limitCount_of :: "FetchOptions option \<Rightarrow> nat option" where
  "limitCount_of options = (case options of None \<Rightarrow> None | Some opts \<Rightarrow> limit opts)"

definition fresh_cache :: "FetchOptions option \<Rightarrow> Date \<Rightarrow> Service \<Rightarrow> Task list option" where
  \<comment> \<open>the cache when \<open>useCache && tasksCache && (Date.now() - lastCacheTime) < CACHE_DURATION\<close>\<close>
  "fresh_cache options now sv =
     (if useCache_of options \<and> now - lastCacheTime sv < CACHE_DURATION then tasksCache sv
      else None)"

definition live_fetch :: "FetchOptions option \<Rightarrow> Date \<Rightarrow> Exn option \<Rightarrow> Firestore \<Rightarrow> Exn + Task list" where
  "live_fetch options now' fault fs =
     (case getDocs fault
             \<lparr>orderByDay = True,
              limitTo = (if truthy (limitCount_of options) then limitCount_of options else None)\<rparr>
             fs of
        Inl e \<Rightarrow> Inl e
      | Inr snapshot \<Rightarrow> mapE (toTask now') snapshot)"

definition fetchTasks ::
  "FetchOptions option \<Rightarrow> Date \<Rightarrow> Date \<Rightarrow> Exn option \<Rightarrow> Firestore \<Rightarrow> Service
     \<Rightarrow> (Exn + Task list) \<times> Service" where
  "fetchTasks options now now' fault fs sv =
     (case fresh_cache options now sv of
        Some cached \<Rightarrow>
          (Inr (case limitCount_of options of
                  Some n \<Rightarrow> if n \<noteq> 0 then take n cached else cached
                | None \<Rightarrow> cached), sv)
      | None \<Rightarrow>
        (case live_fetch options now' fault fs of
           Inr tasks' \<Rightarrow> (Inr tasks', sv\<lparr>tasksCache := Some tasks', lastCacheTime := now'\<rparr>)
         | Inl error \<Rightarrow>
             (case tasksCache sv of
                Some cached \<Rightarrow> (Inr cached, sv)
              | None \<Rightarrow>
                  (Inl (Error ''Failed to fetch tasks. Please check your connection.''), sv))))"

subsection \<open>updateTaskStatus\<close>

record StatusOptions =
  opt_actualHours :: "real option"
  opt_findings :: "jsstring option"
  opt_merge :: "bool option"

fun findIndex :: "('a \<Rightarrow> bool) \<Rightarrow> 'a list \<Rightarrow> nat option" where
  \<comment> \<open>\<open>None\<close> stands for \<open>-1\<close>\<close>
  "findIndex P [] = None"
| "findIndex P (x # xs) =
     (if P x then Some 0 else (case findIndex P xs of None \<Rightarrow> None | Some i \<Rightarrow> Some (Suc i)))"

definition patch_cache :: "jsstring \<Rightarrow> DocumentData \<Rightarrow> Date \<Rightarrow> Service \<Rightarrow> Service" where
  \<comment> \<open>the block under "Optimistic cache update"\<close>
  "patch_cache taskId updateData now' sv =
     (case tasksCache sv of
        None \<Rightarrow> sv
      | Some cache \<Rightarrow>
          (case findIndex (\<lambda>t. id' t = taskId) cache of
             None \<Rightarrow> sv
           | Some taskIndex \<Rightarrow>
               sv\<lparr>tasksCache :=
                    Some (cache[taskIndex :=
                            (spread (cache ! taskIndex) updateData)\<lparr>lastUpdated := DateV now'\<rparr>])\<rparr>))"

text \<open>
  \<open>now\<close> is the clock at \<open>Timestamp.now()\<close>, \<open>now'\<close> at the \<open>new Date()\<close> after the
  \<open>await\<close>; the service state passed in is the one the continuation finds. The source
  assigns into the cached array in place; the lists held elsewhere are values of their
  own here, and nothing below depends on the sharing.
\<close>

definition updateTaskStatus ::
  "jsstring \<Rightarrow> TaskStatus \<Rightarrow> StatusOptions option \<Rightarrow> Date \<Rightarrow> Date \<Rightarrow> Exn option \<Rightarrow> Firestore
     \<Rightarrow> Service \<Rightarrow> (Exn + unit) \<times> Firestore \<times> Service" where
  "updateTaskStatus taskId newStatus options now now' fault fs sv =
     (let actualHours' = (case options of None \<Rightarrow> None | Some opts \<Rightarrow> opt_actualHours opts);
          findings' = (case options of None \<Rightarrow> None | Some opts \<Rightarrow> opt_findings opts);
          merge = (case options of None \<Rightarrow> True
                   | Some opts \<Rightarrow> (case opt_merge opts of None \<Rightarrow> True | Some b \<Rightarrow> b));
          updateData = no_data\<lparr>status := Some newStatus,
                               lastUpdated := TimestampV (Timestamp now),
                               actualHours := actualHours',
                               findings := findings'\<rparr>
      in
        case (if merge then updateDoc fault taskId updateData fs
              else setDoc_merge fault taskId updateData fs) of
          Inl error \<Rightarrow> (Inl (Error ''Failed to update task status. Please try again.''), fs, sv)
        | Inr fs' \<Rightarrow> (Inr (), fs', patch_cache taskId updateData now' sv))"

subsection \<open>subscribeToTasks\<close>

text \<open>
  The two listeners handed to \<open>onSnapshot\<close>. They act on the module state and on the
  state \<open>'c\<close> of whoever subscribed; the callback receives the clock as well, since the
  hook's callback reads it. An exception in the snapshot listener leaves both unchanged.
\<close>

record 'c Listeners =
  onNext :: "Date \<Rightarrow> QuerySnapshot \<Rightarrow> Service \<times> 'c \<Rightarrow> Exn + Service \<times> 'c"
  onFailure :: "Exn \<Rightarrow> Service \<times> 'c \<Rightarrow> Service \<times> 'c"

definition subscribeToTasks ::
  "(Date \<Rightarrow> Task list \<Rightarrow> 'c \<Rightarrow> 'c) \<Rightarrow> (Exn \<Rightarrow> 'c \<Rightarrow> 'c) option \<Rightarrow> 'c Listeners" where
  "subscribeToTasks callback onError =
     \<lparr>onNext = (\<lambda>now snapshot (sv, c).
         case mapE (toTask now) snapshot of
           Inl e \<Rightarrow> Inl e
         | Inr tasks' \<Rightarrow>
             Inr (sv\<lparr>tasksCache := Some tasks', lastCacheTime := now\<rparr>, callback now tasks' c)),
      onFailure = (\<lambda>error (sv, c).
         (sv, case onError of None \<Rightarrow> c | Some handler \<Rightarrow> handler error c))\<rparr>"

section \<open>The dashboard hooks\<close>

subsection \<open>calculateStats\<close>

text \<open>
  A quotient of two numbers is a number only when the divisor is not zero: otherwise the
  host language yields \<open>NaN\<close> or an infinity, written \<open>None\<close> here. \<open>Math.round\<close> rounds
  half up, as \<open>round\<close> does.
\<close>

record DashboardStats =
  totalTasks :: nat
  completedTasks :: nat
  inProgressTasks :: nat
  blockedTasks :: nat
  completionRate :: "int option"
  totalHours :: real
  velocity :: "real option"

definition divide_number :: "real \<Rightarrow> real \<Rightarrow> real option" where
  "divide_number a b = (if b = 0 then None else Some (a / b))"

definition hours :: "'m DocumentData_scheme \<Rightarrow> real" where
  \<comment> \<open>\<open>t.actualHours || t.estimatedHours || 0\<close>: absent and zero are false\<close>
  "hours t =
     (case actualHours t of
        Some a \<Rightarrow> if a \<noteq> 0 then a else (case estimatedHours t of Some e \<Rightarrow> e | None \<Rightarrow> 0)
      | None \<Rightarrow> (case estimatedHours t of Some e \<Rightarrow> e | None \<Rightarrow> 0))"

definition calculateStats :: "Task list \<Rightarrow> DashboardStats" where
  "calculateStats tasks' =
     (let completed = length (filter (\<lambda>t. status t = Some Completed) tasks');
          inProgress = length (filter (\<lambda>t. status t = Some InProgress) tasks');
          blocked = length (filter (\<lambda>t. status t = Some Blocked) tasks');
          totalHours' = foldl (\<lambda>acc t. acc + hours t) 0 tasks'
      in \<lparr>totalTasks = length tasks',
          completedTasks = completed,
          inProgressTasks = inProgress,
          blockedTasks = blocked,
          completionRate =
            (if length tasks' > 0
             then map_option (\<lambda>q. round (q * 100))
                    (divide_number (real completed) (real (length tasks')))
             else Some 0),
          totalHours = totalHours',
          velocity = divide_number (real completed) 6\<rparr>)"

subsection \<open>useTesterAuth\<close>

text \<open>
  The state of the hook, with the two storage entries it keeps and the pending lockout
  timer. \<open>login\<close> is made by \<open>useCallback(\<dots>, [isLocked])\<close>: a render creates the callback
  with the \<open>isLocked\<close> it shows, and that captured value is what the first test reads,
  whatever the state has become since. It is the first argument here, so the callback
  of a render showing the state \<open>s\<close> is \<open>login (isLocked s)\<close>. The setters act on the
  live state, and the counter goes through the functional setter, which reads the live
  count. The clock is read when a lockout starts. \<open>remaining\<close> is read only where
  \<open>newAttempts < MAX_ATTEMPTS\<close>, so the difference is not negative there.
\<close>

definition TESTER_PASSWORD :: jsstring where
  "TESTER_PASSWORD = js ''wecinema4464''"

definition MAX_ATTEMPTS :: nat where
  "MAX_ATTEMPTS = 3"

definition LOCKOUT_DURATION :: int where
  "LOCKOUT_DURATION = 5 * 60 * 1000"

record TesterAuth =
  isAuthenticated :: bool
  showPassword :: bool
  password :: jsstring
  loginError :: string            \<comment> \<open>the state \<open>error\<close> of this hook\<close>
  attempts :: nat
  showLoginModal :: bool
  isLocked :: bool
  lockoutTimer :: "Date option"   \<comment> \<open>when the pending timeout fires\<close>
  sessionAuth :: "string option"  \<comment> \<open>session storage, key \<open>wecinema_tester_auth\<close>\<close>
  storedLockout :: "int option"   \<comment> \<open>local storage, key \<open>wecinema_tester_auth_lockout\<close>\<close>

definition initial_auth :: TesterAuth where
  "initial_auth = \<lparr>isAuthenticated = False, showPassword = False, password = [],
     loginError = [], attempts = 0, showLoginModal = False, isLocked = False,
     lockoutTimer = None, sessionAuth = None, storedLockout = None\<rparr>"

definition login :: "bool \<Rightarrow> Date \<Rightarrow> jsstring \<Rightarrow> TesterAuth \<Rightarrow> bool \<times> TesterAuth" where
  "login isLocked' now inputPassword a =
     (if isLocked' then
        (False, a\<lparr>loginError := ''Account temporarily locked. Please try again later.''\<rparr>)
      else if inputPassword \<noteq> TESTER_PASSWORD then
        (let newAttempts = attempts a + 1;
             remaining = MAX_ATTEMPTS - newAttempts
         in (False,
             (if newAttempts \<ge> MAX_ATTEMPTS then
                a\<lparr>loginError := ''Too many failed attempts. Account locked for 5 minutes.'',
                  isLocked := True,
                  storedLockout := Some (now + LOCKOUT_DURATION),
                  lockoutTimer := Some (now + LOCKOUT_DURATION)\<rparr>
              else
                a\<lparr>loginError := ''Invalid password. '' @ String remaining @ '' attempt''
                      @ (if remaining \<noteq> 1 then ''s'' else []) @ '' remaining.''\<rparr>)
             \<lparr>attempts := newAttempts\<rparr>))
      else
        (True, a\<lparr>isAuthenticated := True, showLoginModal := False, loginError := [],
                 attempts := 0, sessionAuth := Some ''true'', storedLockout := None\<rparr>))"

definition lockout_expires :: "TesterAuth \<Rightarrow> TesterAuth" where
  \<comment> \<open>the timeout \<open>() => setIsLocked(false)\<close>\<close>
  "lockout_expires a = a\<lparr>isLocked := False\<rparr>"

subsection \<open>useRealtimeTasks\<close>

record Hook =
  tasks :: "Task list"
  loading :: bool
  lastSync :: "Date option"
  error :: "string option"
  unsubscribeRef :: bool   \<comment> \<open>whether the ref holds an unsubscribe handle\<close>

definition initial_hook :: Hook where
  "initial_hook = \<lparr>tasks = [], loading = True, lastSync = None, error = None,
     unsubscribeRef = False\<rparr>"

text \<open>
  The running application: the module state of the service, the state of the hook, and
  whether the listeners registered with \<open>onSnapshot\<close> are live.
\<close>

record App =
  service :: Service
  hook :: Hook
  listening :: bool

definition hook_callback :: "Date \<Rightarrow> Task list \<Rightarrow> Hook \<Rightarrow> Hook" where
  \<comment> \<open>the callback the hook passes to \<open>subscribeToTasks\<close>\<close>
  "hook_callback now updatedTasks h =
     h\<lparr>tasks := updatedTasks, lastSync := Some now, loading := False\<rparr>"

definition hook_listeners :: "Hook Listeners" where
  \<comment> \<open>\<open>subscribeToTasks((updatedTasks) => \<dots>)\<close>: no second argument\<close>
  "hook_listeners = subscribeToTasks hook_callback None"

definition setupSubscription :: "Date \<Rightarrow> Date \<Rightarrow> Exn option \<Rightarrow> Firestore \<Rightarrow> App \<Rightarrow> App" where
  "setupSubscription now now' fault fs app =
     (let h = (hook app)\<lparr>loading := True, error := None\<rparr>
      in case fetchTasks None now now' fault fs (service app) of
           (Inr initialTasks', sv) \<Rightarrow>
             app\<lparr>service := sv,
                 hook := h\<lparr>tasks := initialTasks', lastSync := Some now', loading := False,
                           unsubscribeRef := True\<rparr>,
                 listening := True\<rparr>
         | (Inl err, sv) \<Rightarrow>
             app\<lparr>service := sv,
                 hook := h\<lparr>error := Some ''Failed to load tasks'', loading := False\<rparr>\<rparr>)"

definition cleanup :: "App \<Rightarrow> App" where
  "cleanup app =
     (if unsubscribeRef (hook app)
      then app\<lparr>hook := (hook app)\<lparr>unsubscribeRef := False\<rparr>, listening := False\<rparr>
      else app)"

text \<open>
  Modelled from the spec: what the store's change subscription delivers. While the
  listeners are registered, a push runs the snapshot listener and an error runs the
  error listener; neither removes the registration, only the unsubscribe handle does.
\<close>

datatype Event = Push QuerySnapshot | Failure Exn

definition deliver :: "Date \<Rightarrow> Event \<Rightarrow> App \<Rightarrow> App" where
  "deliver now ev app =
     (if \<not> listening app then app
      else
        (case ev of
           Push snapshot \<Rightarrow>
             (case onNext hook_listeners now snapshot (service app, hook app) of
                Inl e \<Rightarrow> app
              | Inr (sv, h) \<Rightarrow> app\<lparr>service := sv, hook := h\<rparr>)
         | Failure e \<Rightarrow>
             (case onFailure hook_listeners e (service app, hook app) of
                (sv, h) \<Rightarrow> app\<lparr>service := sv, hook := h\<rparr>)))"

definition updateStatus ::
  "jsstring \<Rightarrow> TaskStatus \<Rightarrow> Date \<Rightarrow> Date \<Rightarrow> Exn option \<Rightarrow> Firestore \<Rightarrow> Service
     \<Rightarrow> (Exn + unit) \<times> Firestore \<times> Service" where
  "updateStatus taskId newStatus now now' fault fs sv =
     (case updateTaskStatus taskId newStatus None now now' fault fs sv of
        (Inl err, fs', sv') \<Rightarrow> (Inl (Error ''Failed to update status. Please try again.''), fs', sv')
      | (Inr u, fs', sv') \<Rightarrow> (Inr u, fs', sv'))"

subsection \<open>useTaskFilter\<close>

text \<open>
  \<open>toLowerCase\<close> and \<open>trim\<close> are built-ins of the host language, not code of the
  hooks: the functions below take them as parameters, so what is proved holds for the
  conversions the program runs with. \<open>includes\<close> compares code units.
\<close>

datatype StatusFilter = All | Only TaskStatus

fun includes' :: "jsstring \<Rightarrow> jsstring \<Rightarrow> bool" where
  \<comment> \<open>\<open>s.includes(q)\<close>\<close>
  "includes' [] q = (q = [])"
| "includes' (c # s) q = (prefix q (c # s) \<or> includes' s q)"

definition debounced ::
  "(jsstring \<Rightarrow> jsstring) \<Rightarrow> (jsstring \<Rightarrow> jsstring) \<Rightarrow> jsstring \<Rightarrow> jsstring" where
  \<comment> \<open>the value the timer stores: \<open>searchQuery.toLowerCase().trim()\<close>\<close>
  "debounced toLowerCase trim searchQuery = trim (toLowerCase searchQuery)"

definition matchesSearch :: "(jsstring \<Rightarrow> jsstring) \<Rightarrow> jsstring \<Rightarrow> Task \<Rightarrow> bool" where
  "matchesSearch toLowerCase searchLower task =
     ((case title task of None \<Rightarrow> False | Some s \<Rightarrow> includes' (toLowerCase s) searchLower) \<or>
      (case module task of None \<Rightarrow> False | Some s \<Rightarrow> includes' (toLowerCase s) searchLower) \<or>
      (case tags task of None \<Rightarrow> False
       | Some ts \<Rightarrow> list_ex (\<lambda>tag. includes' (toLowerCase tag) searchLower) ts))"

definition filteredTasks ::
  "(jsstring \<Rightarrow> jsstring) \<Rightarrow> Task list \<Rightarrow> StatusFilter \<Rightarrow> jsstring \<Rightarrow> Task list" where
  "filteredTasks toLowerCase tasks' filterStatus debouncedQuery =
     (if debouncedQuery = [] \<and> filterStatus = All then tasks'
      else
        filter (\<lambda>task.
          (let matchesStatus =
                 (filterStatus = All \<or>
                  (case filterStatus of Only s \<Rightarrow> status task = Some s | All \<Rightarrow> False))
           in if debouncedQuery = [] then matchesStatus
              else matchesStatus \<and> matchesSearch toLowerCase debouncedQuery task)) tasks')"

text \<open>
  The projection as the specification words it: the tasks whose status matches the filter
  and, when the query is not empty, whose lowercased title, module or some tag contains it.
\<close>

definition status_matches :: "StatusFilter \<Rightarrow> Task \<Rightarrow> bool" where
  "status_matches f t = (case f of All \<Rightarrow> True | Only s \<Rightarrow> status t = Some s)"

definition contains_query :: "(jsstring \<Rightarrow> jsstring) \<Rightarrow> jsstring \<Rightarrow> Task \<Rightarrow> bool" where
  "contains_query toLowerCase q t =
     ((\<exists>s. title t = Some s \<and> sublist q (toLowerCase s)) \<or>
      (\<exists>s. module t = Some s \<and> sublist q (toLowerCase s)) \<or>
      (\<exists>ts tag. tags t = Some ts \<and> tag \<in> set ts \<and> sublist q (toLowerCase tag)))"

definition projection_spec ::
  "(jsstring \<Rightarrow> jsstring) \<Rightarrow> Task list \<Rightarrow> StatusFilter \<Rightarrow> jsstring \<Rightarrow> Task list" where
  "projection_spec toLowerCase ts f q =
     filter (\<lambda>t. status_matches f t \<and> (q = [] \<or> contains_query toLowerCase q t)) ts"

section \<open>Inputs and states used in examples\<close>

definition date_convertible :: "JSValue \<Rightarrow> bool" where
  \<comment> \<open>every value except an object whose \<open>toDate\<close> member is not a function returning a date\<close>
  "date_convertible v =
     (case v of
        Obj_toDate_not_function \<Rightarrow> False
      | Obj_toDate_throws \<Rightarrow> False
      | Obj_toDate_returns w \<Rightarrow> (case w of DateV d \<Rightarrow> True | _ \<Rightarrow> False)
      | _ \<Rightarrow> True)"

definition example_store :: Firestore where
  "example_store = [(js ''task_001'', no_data\<lparr>day := Some 1, status := Some Blocked\<rparr>)]"

definition example_task :: "string \<Rightarrow> TaskStatus \<Rightarrow> string \<Rightarrow> Task" where
  "example_task i s t =
     DocumentData.extend (no_data\<lparr>title := Some (js t), status := Some s\<rparr>) (Task.fields (js i))"

text \<open>
  Two conversions to run the filter on ASCII text, where they do what the built-ins do:
  the letters \<open>A\<close> to \<open>Z\<close> are mapped to \<open>a\<close> to \<open>z\<close>, and the code units 9 to 13 and 32
  are removed at both ends.
\<close>

definition ascii_lower :: "jsstring \<Rightarrow> jsstring" where
  "ascii_lower s = map (\<lambda>u. if 65 \<le> u \<and> u \<le> 90 then u + 32 else u) s"

definition ascii_trim :: "jsstring \<Rightarrow> jsstring" where
  "ascii_trim s =
     rev (dropWhile (\<lambda>u. (9 \<le> u \<and> u \<le> 13) \<or> u = 32)
            (rev (dropWhile (\<lambda>u. (9 \<le> u \<and> u \<le> 13) \<or> u = 32) s)))"

definition initial_app :: App where
  "initial_app = \<lparr>service = initial_service, hook = initial_hook, listening = False\<rparr>"

text \<open>
  States of the access gate after wrong passwords. In the first three every call goes
  through the callback of the render showing the state the call before left; in the
  last all three go through the callback of the first render.
\<close>

definition fresh_one_wrong :: TesterAuth where
  "fresh_one_wrong = snd (login (isLocked initial_auth) 1 (js ''a'') initial_auth)"

definition fresh_two_wrong :: TesterAuth where
  "fresh_two_wrong = snd (login (isLocked fresh_one_wrong) 2 (js ''a'') fresh_one_wrong)"

definition fresh_three_wrong :: TesterAuth where
  "fresh_three_wrong = snd (login (isLocked fresh_two_wrong) 3 (js ''a'') fresh_two_wrong)"

definition stale_three_wrong :: TesterAuth where
  "stale_three_wrong =
     snd (login (isLocked initial_auth) 3 (js ''a'')
       (snd (login (isLocked initial_auth) 2 (js ''a'')
         (snd (login (isLocked initial_auth) 1 (js ''a'') initial_auth)))))"

section \<open>Properties of strings\<close>

lemma of_char_word_inj: "(of_char c :: 16 word) = of_char d \<longleftrightarrow> c = d"
proof
  assume "(of_char c :: 16 word) = of_char d"
  then have "unat (of_nat (of_char c) :: 16 word) = unat (of_nat (of_char d) :: 16 word)"
    by (simp add: of_nat_of_char)
  moreover have "(of_char x :: nat) < 2 ^ 16" for x
  proof -
    have "(of_char x :: nat) = of_char x mod 256" by simp
    also have "\<dots> < 256" by (rule mod_less_divisor) simp
    finally have "(of_char x :: nat) < 256" .
    then show ?thesis by (rule less_trans) simp
  qed
  ultimately have "(of_char c :: nat) = of_char d"
    by (simp add: unat_of_nat take_bit_nat_eq_self)
  then show "c = d" by simp
qed simp

lemma js_eq_iff [simp]: "js s = js t \<longleftrightarrow> s = t"
  unfolding js_def
  by (rule inj_map_eq_map) (simp add: inj_on_def of_char_word_inj)

section \<open>Properties of the timestamp normalizer\<close>

text \<open>
  An object that merely has a member called \<open>toDate\<close> passes the probe, and the member is
  called whatever it is: the call throws when it is not a function, and a value that is
  not a date comes back when the method returns one.
\<close>

theorem convertTimestamp_counterexample:
  "convertTimestamp 0 Obj_toDate_not_function = Inl TypeError \<and>
   convertTimestamp 0 Obj_toDate_throws = Inl Raised \<and>
   convertTimestamp 0 (Obj_toDate_returns Null) = Inr Null"
  by simp

text \<open>
  C6 (amended). On every input other than an object whose \<open>toDate\<close> member is not a
  function returning a date, \<open>convertTimestamp\<close> returns a date and does not throw: a
  store timestamp yields its conversion, a date yields itself, an object whose \<open>toDate\<close>
  method returns a date yields that date, and every remaining input (absent, null, a
  primitive, an object without the member) yields the current instant.
\<close>

theorem convertTimestamp_returns_date:
  assumes "date_convertible v"
  shows "convertTimestamp now v =
           Inr (DateV (case v of
                         TimestampV ts \<Rightarrow> toDate ts
                       | DateV d \<Rightarrow> d
                       | Obj_toDate_returns w \<Rightarrow> (case w of DateV d \<Rightarrow> d | _ \<Rightarrow> now)
                       | _ \<Rightarrow> now))"
  using assms by (cases v) (auto simp: date_convertible_def split: JSValue.splits)

theorem convertTimestamp_returns_date_witness:
  "date_convertible Null \<and> convertTimestamp 5 Null = Inr (DateV 5) \<and>
   date_convertible (TimestampV (Timestamp 7)) \<and>
   convertTimestamp 5 (TimestampV (Timestamp 7)) = Inr (DateV 7)"
  using convertTimestamp_returns_date [of Null 5]
        convertTimestamp_returns_date [of "TimestampV (Timestamp 7)" 5]
  by (simp add: date_convertible_def)

section \<open>Properties of the existence probe and of the seeding\<close>

subsection \<open>What a committed batch leaves in the store\<close>

lemma map_of_batch:
  "map_of (foldl (\<lambda>acc (ref, d). AList.update ref d acc) fs sets) = map_of fs ++ map_of (rev sets)"
proof (induction sets arbitrary: fs)
  case Nil
  show ?case by simp
next
  case (Cons s sets)
  obtain k d where s: "s = (k, d)" by (cases s)
  show ?case
    by (simp add: Cons.IH s update_conv' map_add_def fun_eq_iff split: option.splits)
qed

lemma batch_head:
  assumes "sets = (k, d) # rest" and "distinct (map fst sets)"
  shows "map_of (foldl (\<lambda>acc (ref, d). AList.update ref d acc) fs sets) k = Some d"
proof -
  have "k \<notin> dom (map_of (rev rest))"
    using assms by (simp add: dom_map_of_conv_image_fst)
  then have "map_of (rev rest) k = None" by blast
  then show ?thesis
    by (simp add: map_of_batch assms(1) map_add_def update_conv')
qed

subsection \<open>The seed batch\<close>

lemma length_initialTasks: "length (initialTasks today) = 20"
  by (simp add: initialTasks_def)

lemma status_first_seed: "status (hd (initialTasks today)) = Some Completed"
  by (simp add: initialTasks_def)

lemma seed_keys: "map fst (seed_batch today now) = map docRef [0..<length (initialTasks today)]"
proof -
  have "map fst (seed_batch today now) = map (docRef \<circ> fst) (enumerate 0 (initialTasks today))"
    by (simp add: seed_batch_def split_def comp_def)
  also have "\<dots> = map docRef (map fst (enumerate 0 (initialTasks today)))"
    by (simp only: map_map)
  finally show ?thesis
    by (simp only: map_fst_enumerate add_0)
qed

lemma distinct_docRefs: "distinct (map docRef [0..<20])"
  by code_simp

lemma seed_head:
  "\<exists>rest. seed_batch today now =
     (js ''task_001'', (hd (initialTasks today))\<lparr>lastUpdated := TimestampV (Timestamp now),
         createdAt := Some (Timestamp now), order := Some 1\<rparr>) # rest"
proof -
  obtain x xs where tbl: "initialTasks today = x # xs"
    using length_initialTasks [of today] by (cases "initialTasks today") auto
  have "docRef 0 = js ''task_001''" by code_simp
  then show ?thesis
    by (simp add: seed_batch_def tbl enumerate_simps)
qed

lemma reseeded_status:
  "map_option status
     (map_of (foldl (\<lambda>acc (ref, d). AList.update ref d acc) fs (seed_batch today now)) (js ''task_001''))
   = Some (Some Completed)"
proof -
  obtain rest where r: "seed_batch today now =
     (js ''task_001'', (hd (initialTasks today))\<lparr>lastUpdated := TimestampV (Timestamp now),
         createdAt := Some (Timestamp now), order := Some 1\<rparr>) # rest"
    using seed_head by blast
  have "distinct (map fst (seed_batch today now))"
    by (simp only: seed_keys length_initialTasks distinct_docRefs)
  from batch_head [OF r this] show ?thesis
    by (simp add: status_first_seed)
qed

subsection \<open>checkTasksExist\<close>

text \<open>
  C9. \<open>checkTasksExist\<close> always resolves with a boolean and never rejects: a store error
  during the probe is absorbed and reported as \<open>false\<close>, the answer for an empty
  collection, and otherwise the answer is whether the collection has a document. After a failed probe
  \<open>initializeTasks\<close> without \<open>force\<close> therefore commits the seed batch, whatever the
  collection holds.
\<close>

theorem checkTasksExist_total:
  "(\<exists>b. checkTasksExist fault fs = Inr b) \<and>
   (fault \<noteq> None \<longrightarrow> checkTasksExist fault fs = Inr False) \<and>
   (fault = None \<longrightarrow> checkTasksExist fault fs = Inr (fs \<noteq> [])) \<and>
   (fault \<noteq> None \<longrightarrow> checkTasksExist fault fs = checkTasksExist None []) \<and>
   (fault \<noteq> None \<longrightarrow>
      initializeTasks False today now fault None fs sv =
        (Inr (), foldl (\<lambda>acc (ref, d). AList.update ref d acc) fs (seed_batch today now),
         sv\<lparr>tasksCache := None\<rparr>))"
  by (cases fault; cases fs)
     (auto simp: checkTasksExist_def getDocs_def run_query_def initializeTasks_def batch_commit_def)

theorem checkTasksExist_total_witness:
  "checkTasksExist (Some (FirestoreError ''unavailable'')) example_store = Inr False \<and>
   checkTasksExist None example_store = Inr True \<and>
   initializeTasks False 0 1 (Some (FirestoreError ''unavailable'')) None example_store initial_service =
     (Inr (), foldl (\<lambda>acc (ref, d). AList.update ref d acc) example_store (seed_batch 0 1),
      initial_service\<lparr>tasksCache := None\<rparr>)"
  using checkTasksExist_total [of "Some (FirestoreError ''unavailable'')" example_store 0 1 initial_service]
        checkTasksExist_total [of None example_store]
  by (simp add: example_store_def)

subsection \<open>initializeTasks\<close>

text \<open>
  The store holds one task, blocked. A first call without \<open>force\<close> finds it and writes
  nothing. A second call whose probe is rejected, while the batch goes through, commits
  the seed batch over it: the task is back to the status of the table.
\<close>

theorem initializeTasks_reseeds_counterexample:
  "initializeTasks False 0 1 None None example_store initial_service =
     (Inr (), example_store, initial_service) \<and>
   map_option status (map_of example_store (js ''task_001'')) = Some (Some Blocked) \<and>
   map_option status
     (map_of (fst (snd (initializeTasks False 2 3 (Some (FirestoreError ''unavailable'')) None
                          example_store initial_service))) (js ''task_001'')) = Some (Some Completed)"
proof -
  have a: "initializeTasks False 0 1 None None example_store initial_service =
             (Inr (), example_store, initial_service)"
    by (simp add: initializeTasks_def checkTasksExist_def getDocs_def run_query_def example_store_def)
  have b: "fst (snd (initializeTasks False 2 3 (Some (FirestoreError ''unavailable'')) None
               example_store initial_service)) =
           foldl (\<lambda>acc (ref, d). AList.update ref d acc) example_store (seed_batch 2 3)"
    by (simp add: initializeTasks_def checkTasksExist_def getDocs_def batch_commit_def)
  have c: "map_option status (map_of example_store (js ''task_001'')) = Some (Some Blocked)"
    by (simp add: example_store_def no_data_def)
  show ?thesis
    by (simp only: a b c reseeded_status)
qed

text \<open>
  C3 (amended). Two calls of \<open>initializeTasks\<close> in a row without \<open>force\<close>: when records
  exist after the first call and the existence probe of the second call is served, the
  second call resolves without any write, and the store and the cache are as the first
  call left them.
\<close>

theorem initializeTasks_idempotent:
  assumes "initializeTasks False today1 now1 probe1 commit1 fs sv = (r1, fs1, sv1)"
    and "fs1 \<noteq> []"
  shows "initializeTasks False today2 now2 None commit2 fs1 sv1 = (Inr (), fs1, sv1)"
  using assms(2)
  by (simp add: initializeTasks_def checkTasksExist_def getDocs_def run_query_def)

theorem initializeTasks_idempotent_witness:
  "initializeTasks False 0 1 None None [] initial_service =
     (Inr (), foldl (\<lambda>acc (ref, d). AList.update ref d acc) [] (seed_batch 0 1),
      initial_service\<lparr>tasksCache := None\<rparr>) \<and>
   foldl (\<lambda>acc (ref, d). AList.update ref d acc) [] (seed_batch 0 1) \<noteq> [] \<and>
   initializeTasks False 2 3 None (Some (FirestoreError ''unavailable''))
       (foldl (\<lambda>acc (ref, d). AList.update ref d acc) [] (seed_batch 0 1))
       (initial_service\<lparr>tasksCache := None\<rparr>) =
     (Inr (), foldl (\<lambda>acc (ref, d). AList.update ref d acc) [] (seed_batch 0 1),
      initial_service\<lparr>tasksCache := None\<rparr>)"
proof -
  have first: "initializeTasks False 0 1 None None [] initial_service =
     (Inr (), foldl (\<lambda>acc (ref, d). AList.update ref d acc) [] (seed_batch 0 1),
      initial_service\<lparr>tasksCache := None\<rparr>)"
    by (simp add: initializeTasks_def checkTasksExist_def getDocs_def run_query_def
          batch_commit_def)
  have "map_of (foldl (\<lambda>acc (ref, d). AList.update ref d acc) [] (seed_batch 0 1)) (js ''task_001'')
          \<noteq> None"
    using reseeded_status [of "[]" 0 1] by auto
  then have seeded: "foldl (\<lambda>acc (ref, d). AList.update ref d acc) [] (seed_batch 0 1) \<noteq> []"
    by auto
  from initializeTasks_idempotent [OF first seeded] first seeded show ?thesis
    by blast
qed

section \<open>Properties of the statistics\<close>

text \<open>
  C10. On the empty task list \<open>calculateStats\<close> is well defined: the counts and the
  total of hours are 0, and the completion rate is the number 0, because the quotient is
  not computed there (computed, it would not be a number). On every list the completion
  rate is a number.
\<close>

theorem calculateStats_empty:
  "calculateStats [] =
     \<lparr>totalTasks = 0, completedTasks = 0, inProgressTasks = 0, blockedTasks = 0,
      completionRate = Some 0, totalHours = 0, velocity = Some 0\<rparr> \<and>
   divide_number (real (length (filter (\<lambda>t. status t = Some Completed) ([] :: Task list))))
                 (real (length ([] :: Task list))) = None \<and>
   completionRate (calculateStats ts) \<noteq> None"
  by (simp add: calculateStats_def divide_number_def Let_def)

section \<open>Properties of the synchronization cache\<close>

subsection \<open>fetchTasks\<close>

lemma live_fetch_fault: "live_fetch options now' (Some e) fs = Inl e"
  by (simp add: live_fetch_def getDocs_def)

text \<open>
  C2. A rejected store call makes the live fetch fail. Whenever the list is fetched live
  and the fetch fails, \<open>fetchTasks\<close> resolves with the cached list if there is one,
  however old, and leaves the module state alone; it rejects only when there is no cache.
  With a cache and without a count limit the cached list is the answer whether the cache
  was fresh or not.
\<close>

theorem fetchTasks_cache_fallback:
  "(fault = Some e \<longrightarrow> live_fetch options now' fault fs = Inl e) \<and>
   (fresh_cache options now sv = None \<and> live_fetch options now' fault fs = Inl e \<longrightarrow>
      fetchTasks options now now' fault fs sv =
        (case tasksCache sv of
           Some cached \<Rightarrow> (Inr cached, sv)
         | None \<Rightarrow> (Inl (Error ''Failed to fetch tasks. Please check your connection.''), sv))) \<and>
   (tasksCache sv = Some cached \<and> \<not> truthy (limitCount_of options) \<and>
    live_fetch options now' fault fs = Inl e \<longrightarrow>
      fetchTasks options now now' fault fs sv = (Inr cached, sv))"
proof (intro conjI impI)
  assume "fault = Some e"
  then show "live_fetch options now' fault fs = Inl e"
    by (simp add: live_fetch_fault)
next
  assume "fresh_cache options now sv = None \<and> live_fetch options now' fault fs = Inl e"
  then show "fetchTasks options now now' fault fs sv =
        (case tasksCache sv of
           Some cached \<Rightarrow> (Inr cached, sv)
         | None \<Rightarrow> (Inl (Error ''Failed to fetch tasks. Please check your connection.''), sv))"
    by (simp add: fetchTasks_def)
next
  assume a: "tasksCache sv = Some cached \<and> \<not> truthy (limitCount_of options) \<and>
    live_fetch options now' fault fs = Inl e"
  show "fetchTasks options now now' fault fs sv = (Inr cached, sv)"
  proof (cases "fresh_cache options now sv")
    case None
    with a show ?thesis by (simp add: fetchTasks_def)
  next
    case (Some c)
    then have "c = cached"
      using a by (simp add: fresh_cache_def split: if_splits)
    with Some a show ?thesis
      by (simp add: fetchTasks_def truthy_def split: option.splits)
  qed
qed

theorem fetchTasks_cache_fallback_witness:
  "fresh_cache None 100000 \<lparr>tasksCache = Some [example_task ''a'' Blocked ''Login''], lastCacheTime = 0\<rparr> = None \<and>
   fetchTasks None 100000 100001 (Some (FirestoreError ''unavailable'')) example_store
       \<lparr>tasksCache = Some [example_task ''a'' Blocked ''Login''], lastCacheTime = 0\<rparr> =
     (Inr [example_task ''a'' Blocked ''Login''],
      \<lparr>tasksCache = Some [example_task ''a'' Blocked ''Login''], lastCacheTime = 0\<rparr>) \<and>
   fetchTasks None 100000 100001 (Some (FirestoreError ''unavailable'')) example_store initial_service =
     (Inl (Error ''Failed to fetch tasks. Please check your connection.''), initial_service)"
  using fetchTasks_cache_fallback [of "Some (FirestoreError ''unavailable'')" "FirestoreError ''unavailable''"
          None 100001 example_store 100000
          "\<lparr>tasksCache = Some [example_task ''a'' Blocked ''Login''], lastCacheTime = 0\<rparr>"]
        fetchTasks_cache_fallback [of "Some (FirestoreError ''unavailable'')" "FirestoreError ''unavailable''"
          None 100001 example_store 100000 initial_service]
  by (simp add: fresh_cache_def CACHE_DURATION_def initial_service_def)

subsection \<open>updateTaskStatus\<close>

lemma findIndex_Some:
  "findIndex P xs = Some i \<Longrightarrow> i < length xs \<and> P (xs ! i) \<and> (\<forall>j<i. \<not> P (xs ! j))"
proof (induction xs arbitrary: i)
  case Nil
  then show ?case by simp
next
  case (Cons x xs)
  show ?case
  proof (cases "P x")
    case True
    with Cons.prems show ?thesis by simp
  next
    case False
    with Cons.prems obtain k where k: "findIndex P xs = Some k" "i = Suc k"
      by (auto split: option.splits)
    from Cons.IH [OF k(1)] False k(2) show ?thesis
      by (auto simp: less_Suc_eq_0_disj)
  qed
qed

lemma findIndex_None: "findIndex P xs = None \<longleftrightarrow> (\<forall>x\<in>set xs. \<not> P x)"
  by (induction xs) (auto split: option.splits)

lemma spread_status: "status (spread t (no_data\<lparr>status := Some s, lastUpdated := l, actualHours := h, findings := f\<rparr>)) = Some s"
  by (simp add: spread_def override_def)

lemma spread_id: "id' (spread t p) = id' t"
  by (simp add: spread_def)

lemma patch_cache_present:
  assumes "tasksCache sv = Some cache" and "findIndex (\<lambda>t. id' t = taskId) cache = Some i"
  shows "patch_cache taskId p now' sv =
           sv\<lparr>tasksCache := Some (cache[i := (spread (cache ! i) p)\<lparr>lastUpdated := DateV now'\<rparr>])\<rparr>"
  using assms by (simp add: patch_cache_def)

lemma updateTaskStatus_ok:
  assumes "updateTaskStatus taskId newStatus options now now' fault fs sv = (Inr (), fs', sv')"
  shows "\<exists>h f. sv' = patch_cache taskId
                  (no_data\<lparr>status := Some newStatus, lastUpdated := TimestampV (Timestamp now),
                            actualHours := h, findings := f\<rparr>) now' sv"
  using assms by (auto simp: updateTaskStatus_def Let_def split: sum.splits)

lemma fetchTasks_fresh:
  assumes "tasksCache sv = Some cache" and "t1 - lastCacheTime sv < CACHE_DURATION"
  shows "fetchTasks None t1 t2 fault fs sv = (Inr cache, sv)"
  using assms
  by (simp add: fetchTasks_def fresh_cache_def useCache_of_def limitCount_of_def)

text \<open>
  C1. The cache holds a task with the given id and the remote write of
  \<open>updateTaskStatus\<close> succeeds. Then the cache is patched at the first position \<open>i\<close>
  with that id: the task there keeps its id and has the new status, every other position
  is unchanged, the freshness stamp is unchanged, and a read served from the cache
  returns exactly this list.
\<close>

theorem updateTaskStatus_optimistic:
  assumes cache: "tasksCache sv = Some cache"
    and present: "t \<in> set cache" "id' t = taskId"
    and ok: "updateTaskStatus taskId newStatus options now now' fault fs sv = (Inr (), fs', sv')"
  shows "\<exists>i cache'.
           findIndex (\<lambda>t. id' t = taskId) cache = Some i \<and> i < length cache \<and>
           tasksCache sv' = Some cache' \<and> lastCacheTime sv' = lastCacheTime sv \<and>
           length cache' = length cache \<and>
           id' (cache' ! i) = taskId \<and> status (cache' ! i) = Some newStatus \<and>
           (\<forall>j<length cache. j \<noteq> i \<longrightarrow> cache' ! j = cache ! j) \<and>
           (\<forall>t1 t2 fault2 fs2. t1 - lastCacheTime sv' < CACHE_DURATION \<longrightarrow>
              fetchTasks None t1 t2 fault2 fs2 sv' = (Inr cache', sv'))"
proof -
  from present obtain i where i: "findIndex (\<lambda>t. id' t = taskId) cache = Some i"
    using findIndex_None [of "\<lambda>t. id' t = taskId" cache] by (cases "findIndex (\<lambda>t. id' t = taskId) cache") auto
  from findIndex_Some [OF i] have bound: "i < length cache" and idi: "id' (cache ! i) = taskId"
    by auto
  from updateTaskStatus_ok [OF ok] obtain h f where
    sv': "sv' = patch_cache taskId
                  (no_data\<lparr>status := Some newStatus, lastUpdated := TimestampV (Timestamp now),
                            actualHours := h, findings := f\<rparr>) now' sv"
    by blast
  define p where "p = no_data\<lparr>status := Some newStatus, lastUpdated := TimestampV (Timestamp now),
                            actualHours := h, findings := f\<rparr>"
  define cache' where "cache' = cache[i := (spread (cache ! i) p)\<lparr>lastUpdated := DateV now'\<rparr>]"
  have sv'': "sv' = sv\<lparr>tasksCache := Some cache'\<rparr>"
    using patch_cache_present [OF cache i, of p now'] by (simp add: sv' p_def cache'_def)
  have st: "status (cache' ! i) = Some newStatus"
    using bound by (simp add: cache'_def p_def spread_status)
  have idc: "id' (cache' ! i) = taskId"
    using bound idi by (simp add: cache'_def spread_id)
  have others: "\<forall>j<length cache. j \<noteq> i \<longrightarrow> cache' ! j = cache ! j"
    by (simp add: cache'_def)
  have read: "\<forall>t1 t2 fault2 fs2. t1 - lastCacheTime sv' < CACHE_DURATION \<longrightarrow>
              fetchTasks None t1 t2 fault2 fs2 sv' = (Inr cache', sv')"
    using fetchTasks_fresh [of sv' cache'] by (simp add: sv'')
  show ?thesis
    using i bound st idc others read by (intro exI [of _ i] exI [of _ cache']) (simp add: sv'' cache'_def)
qed

theorem updateTaskStatus_optimistic_witness:
  "fst (updateTaskStatus (js ''task_001'') Completed None 1 2 None example_store
          \<lparr>tasksCache = Some [example_task ''task_001'' Blocked ''Login'',
                               example_task ''task_002'' Pending ''Upload''],
           lastCacheTime = 0\<rparr>) = Inr () \<and>
   map status (the (tasksCache (snd (snd
       (updateTaskStatus (js ''task_001'') Completed None 1 2 None example_store
          \<lparr>tasksCache = Some [example_task ''task_001'' Blocked ''Login'',
                               example_task ''task_002'' Pending ''Upload''],
           lastCacheTime = 0\<rparr>))))) = [Some Completed, Some Pending]"
proof -
  define sv where "sv = \<lparr>tasksCache = Some [example_task ''task_001'' Blocked ''Login'',
                               example_task ''task_002'' Pending ''Upload''],
           lastCacheTime = 0\<rparr>"
  define X where "X = updateTaskStatus (js ''task_001'') Completed None 1 2 None example_store sv"
  have r: "fst X = Inr ()"
    by (simp add: X_def updateTaskStatus_def updateDoc_def example_store_def Let_def)
  then have ok: "updateTaskStatus (js ''task_001'') Completed None 1 2 None example_store sv
                   = (Inr (), fst (snd X), snd (snd X))"
    by (simp add: X_def [symmetric] prod_eq_iff)
  have c: "tasksCache sv = Some [example_task ''task_001'' Blocked ''Login'',
                               example_task ''task_002'' Pending ''Upload'']"
    by (simp add: sv_def)
  have m: "example_task ''task_001'' Blocked ''Login'' \<in>
             set [example_task ''task_001'' Blocked ''Login'', example_task ''task_002'' Pending ''Upload'']"
    by simp
  have i: "id' (example_task ''task_001'' Blocked ''Login'') = js ''task_001''"
    by (simp add: example_task_def DocumentData.defs Task.defs)
  have f: "findIndex (\<lambda>t. id' t = js ''task_001'')
             [example_task ''task_001'' Blocked ''Login'', example_task ''task_002'' Pending ''Upload'']
           = Some 0"
    by (simp add: i)
  from updateTaskStatus_optimistic [OF c m i ok] f
  obtain cache' where c': "tasksCache (snd (snd X)) = Some cache'" "length cache' = 2"
      "status (cache' ! 0) = Some Completed"
      "\<forall>j<2. j \<noteq> 0 \<longrightarrow> cache' ! j =
          [example_task ''task_001'' Blocked ''Login'', example_task ''task_002'' Pending ''Upload''] ! j"
    by auto
  from c'(4) have "cache' ! 1 = example_task ''task_002'' Pending ''Upload''"
    by simp
  then have "status (cache' ! 1) = Some Pending"
    by (simp add: example_task_def DocumentData.defs Task.defs no_data_def)
  with c'(2,3) have "map status cache' = [Some Completed, Some Pending]"
    by (intro nth_equalityI) (auto simp: less_Suc_eq numeral_2_eq_2)
  with r c'(1) show ?thesis
    by (simp add: X_def sv_def)
qed

subsection \<open>updateStatus on an id the store does not have\<close>

text \<open>
  The store rejects the update of an absent document with a not-found error. The caller
  of \<open>updateStatus\<close> does not see it: the error that arrives is the hook's generic one,
  the same as when the store is unavailable.
\<close>

theorem updateStatus_error_counterexample:
  "updateDoc None (js ''task_999'') no_data example_store = Inl (FirestoreError ''not-found'') \<and>
   updateStatus (js ''task_999'') Completed 1 2 None example_store initial_service =
     (Inl (Error ''Failed to update status. Please try again.''), example_store, initial_service) \<and>
   updateStatus (js ''task_999'') Completed 1 2 (Some (FirestoreError ''unavailable'')) example_store
       initial_service =
     (Inl (Error ''Failed to update status. Please try again.''), example_store, initial_service)"
  by (simp add: updateStatus_def updateTaskStatus_def updateDoc_def example_store_def Let_def)

text \<open>
  C5 (amended). For every task id the store does not have, \<open>updateStatus\<close> fails: the
  store's not-found rejection is caught by \<open>updateTaskStatus\<close> and replaced by a generic
  error, and the hook replaces that by its own generic error, which is what the caller
  receives. The store and the cache are left unchanged.
\<close>

theorem updateStatus_missing_id:
  assumes "map_of fs taskId = None"
  shows "updateDoc None taskId p fs = Inl (FirestoreError ''not-found'') \<and>
         updateTaskStatus taskId newStatus None now now' fault fs sv =
           (Inl (Error ''Failed to update task status. Please try again.''), fs, sv) \<and>
         updateStatus taskId newStatus now now' fault fs sv =
           (Inl (Error ''Failed to update status. Please try again.''), fs, sv)"
  using assms
  by (cases fault) (simp_all add: updateStatus_def updateTaskStatus_def updateDoc_def Let_def)

theorem updateStatus_missing_id_witness:
  "map_of example_store (js ''task_999'') = None \<and>
   updateStatus (js ''task_999'') Completed 1 2 None example_store
       \<lparr>tasksCache = Some [example_task ''task_999'' Blocked ''Ghost''], lastCacheTime = 0\<rparr> =
     (Inl (Error ''Failed to update status. Please try again.''), example_store,
      \<lparr>tasksCache = Some [example_task ''task_999'' Blocked ''Ghost''], lastCacheTime = 0\<rparr>)"
proof -
  have h: "map_of example_store (js ''task_999'') = None"
    by (simp add: example_store_def)
  from updateStatus_missing_id [OF h] h show ?thesis by blast
qed

section \<open>Properties of the subscription\<close>

lemma deliver_failure: "listening app \<Longrightarrow> deliver t (Failure e) app = app"
  by (simp add: deliver_def hook_listeners_def subscribeToTasks_def)

lemma deliver_push:
  assumes "listening app" and "mapE (toTask t) snapshot = Inr ts"
  shows "deliver t (Push snapshot) app =
           app\<lparr>service := (service app)\<lparr>tasksCache := Some ts, lastCacheTime := t\<rparr>,
               hook := (hook app)\<lparr>tasks := ts, lastSync := Some t, loading := False\<rparr>\<rparr>"
  using assms
  by (simp add: deliver_def hook_listeners_def subscribeToTasks_def hook_callback_def)

lemma error_listener_forwards:
  "onFailure (subscribeToTasks callback (Some handler)) e (sv, c) = (sv, handler e c)"
  "onFailure (subscribeToTasks callback None) e (sv, c) = (sv, c)"
  by (simp_all add: subscribeToTasks_def)

lemma setupSubscription_empty_store:
  "setupSubscription 0 1 None [] initial_app =
     \<lparr>service = \<lparr>tasksCache = Some [], lastCacheTime = 1\<rparr>,
      hook = \<lparr>tasks = [], loading = False, lastSync = Some 1, error = None,
              unsubscribeRef = True\<rparr>,
      listening = True\<rparr>"
  by (simp add: setupSubscription_def fetchTasks_def fresh_cache_def live_fetch_def
        getDocs_def run_query_def limitCount_of_def truthy_def initial_app_def
        initial_service_def initial_hook_def Let_def)

text \<open>
  C4. The hook is mounted on an empty store and its set-up succeeds, so the subscription
  is open. An error then delivered on the error channel of the subscription leaves the
  application as it was: the error flag of the hook is still unset, where the claim has
  it set. The service would have forwarded the error to a second argument of
  \<open>subscribeToTasks\<close>, which the hook does not pass. A failed initial fetch, in the same
  effect of the hook, does set the flag.
\<close>

theorem subscription_error_not_flagged:
  "listening (setupSubscription 0 1 None [] initial_app) \<and>
   deliver 5 (Failure (FirestoreError ''unavailable'')) (setupSubscription 0 1 None [] initial_app) =
     setupSubscription 0 1 None [] initial_app \<and>
   error (hook (deliver 5 (Failure (FirestoreError ''unavailable''))
                  (setupSubscription 0 1 None [] initial_app))) = None \<and>
   error (hook (setupSubscription 0 1 (Some (FirestoreError ''unavailable'')) [] initial_app)) =
     Some ''Failed to load tasks''"
proof -
  have failed: "error (hook (setupSubscription 0 1 (Some (FirestoreError ''unavailable'')) []
                   initial_app)) = Some ''Failed to load tasks''"
    by (simp add: setupSubscription_def fetchTasks_def fresh_cache_def live_fetch_def
          getDocs_def initial_app_def initial_service_def initial_hook_def Let_def)
  show ?thesis
    by (simp add: setupSubscription_empty_store deliver_failure failed)
qed

section \<open>Properties of the filter\<close>

lemma includes'_sublist: "includes' s q = sublist q s"
  by (induction s) (simp_all add: sublist_Cons_right)

lemma matchesSearch_contains: "matchesSearch toLowerCase q t = contains_query toLowerCase q t"
  by (auto simp: matchesSearch_def contains_query_def includes'_sublist list_ex_iff
           split: option.splits)

lemma filteredTasks_filter:
  "filteredTasks toLowerCase ts f q =
     filter (\<lambda>t. status_matches f t \<and> (q = [] \<or> contains_query toLowerCase q t)) ts"
proof (cases "q = [] \<and> f = All")
  case True
  then show ?thesis
    by (simp add: filteredTasks_def status_matches_def)
next
  case False
  have "(f = All \<or> (case f of Only s \<Rightarrow> status t = Some s | All \<Rightarrow> False)) = status_matches f t" for t
    by (cases f) (simp_all add: status_matches_def)
  with False show ?thesis
    by (auto simp: filteredTasks_def Let_def matchesSearch_contains intro!: filter_cong)
qed

text \<open>
  C7. For every task list, status filter and query, and whatever the conversions
  \<open>toLowerCase\<close> and \<open>trim\<close> of the host language do, \<open>filteredTasks\<close> is the projection
  the specification words: the tasks, in their original order, whose status matches the
  filter and, when the query is not empty, whose lowercased title, module or some tag
  contains it as a substring. The query applied is the lowercased, trimmed text typed,
  and the result is a subsequence of the input.
\<close>

theorem filteredTasks_projection:
  "filteredTasks toLowerCase ts f q = projection_spec toLowerCase ts f q \<and>
   filteredTasks toLowerCase ts f (debounced toLowerCase trim searchQuery) =
     projection_spec toLowerCase ts f (trim (toLowerCase searchQuery)) \<and>
   subseq (filteredTasks toLowerCase ts f q) ts"
  by (simp add: filteredTasks_filter projection_spec_def debounced_def)

theorem filteredTasks_projection_witness:
  "filteredTasks ascii_lower
      [example_task ''a'' Blocked ''Login page'', example_task ''b'' Pending ''Upload'',
       example_task ''c'' Blocked ''Search'']
      (Only Blocked) (debounced ascii_lower ascii_trim (js ''  LOG '')) =
     [example_task ''a'' Blocked ''Login page''] \<and>
   projection_spec ascii_lower
      [example_task ''a'' Blocked ''Login page'', example_task ''b'' Pending ''Upload'',
       example_task ''c'' Blocked ''Search'']
      (Only Blocked) (ascii_trim (ascii_lower (js ''  LOG ''))) =
     [example_task ''a'' Blocked ''Login page'']"
proof -
  have "filteredTasks ascii_lower
      [example_task ''a'' Blocked ''Login page'', example_task ''b'' Pending ''Upload'',
       example_task ''c'' Blocked ''Search'']
      (Only Blocked) (debounced ascii_lower ascii_trim (js ''  LOG '')) =
     [example_task ''a'' Blocked ''Login page'']"
    by code_simp
  with filteredTasks_projection [where toLowerCase = ascii_lower and trim = ascii_trim
         and ts = "[example_task ''a'' Blocked ''Login page'', example_task ''b'' Pending ''Upload'',
                    example_task ''c'' Blocked ''Search'']"
         and f = "Only Blocked" and q = "[]" and searchQuery = "js ''  LOG ''"]
  show ?thesis by simp
qed

section \<open>Properties of the access gate\<close>

lemma login_locked:
  "login True now p a =
     (False, a\<lparr>loginError := ''Account temporarily locked. Please try again later.''\<rparr>)"
  by (simp add: login_def)

lemma login_wrong:
  assumes "p \<noteq> TESTER_PASSWORD"
  shows "\<not> fst (login (isLocked a) now p a)"
    and "isAuthenticated (snd (login (isLocked a) now p a)) = isAuthenticated a"
    and "attempts (snd (login (isLocked a) now p a)) =
           (if isLocked a then attempts a else attempts a + 1)"
    and "isLocked (snd (login (isLocked a) now p a)) = (isLocked a \<or> attempts a \<ge> 2)"
  using assms by (auto simp: login_def Let_def MAX_ATTEMPTS_def)

lemma login_correct:
  "\<not> isLocked b \<Longrightarrow>
     fst (login (isLocked b) n TESTER_PASSWORD b) \<and>
     attempts (snd (login (isLocked b) n TESTER_PASSWORD b)) = 0 \<and>
     isAuthenticated (snd (login (isLocked b) n TESTER_PASSWORD b))"
  by (simp add: login_def)

lemma wrong_password: "js ''a'' \<noteq> TESTER_PASSWORD"
  by (simp add: TESTER_PASSWORD_def)

text \<open>
  Four calls through the callback of one render, the first render of the hook, which
  shows an unlocked gate. The callback keeps reading the \<open>isLocked\<close> it captured: after
  three wrong passwords the state is locked, yet a fourth wrong password takes the
  counter to 4, and a fourth call with the right password returns \<open>true\<close> and
  authenticates.
\<close>

theorem login_stale_callback_counterexample:
  "isLocked stale_three_wrong \<and> attempts stale_three_wrong = 3 \<and>
   attempts (snd (login (isLocked initial_auth) 4 (js ''a'') stale_three_wrong)) = 4 \<and>
   fst (login (isLocked initial_auth) 4 TESTER_PASSWORD stale_three_wrong) \<and>
   isAuthenticated (snd (login (isLocked initial_auth) 4 TESTER_PASSWORD stale_three_wrong))"
  using wrong_password
  by (simp add: stale_three_wrong_def login_def initial_auth_def MAX_ATTEMPTS_def Let_def)

text \<open>
  C8 (amended). Every call of \<open>login\<close> is made through the callback of the render that
  shows the state the previous call left. After three consecutive calls with a wrong
  password the gate is locked, and the counter stands at 3 when the calls started
  unlocked with at most two attempts used. A fourth call, with any password, returns
  \<open>false\<close> with the locked-state error, leaves the counter as it is and does not
  authenticate. A call with the right password on an unlocked gate succeeds and resets
  the counter to zero.
\<close>

theorem login_lockout:
  assumes wrong: "p1 \<noteq> TESTER_PASSWORD" "p2 \<noteq> TESTER_PASSWORD" "p3 \<noteq> TESTER_PASSWORD"
    and a1: "a1 = snd (login (isLocked a) n1 p1 a)"
    and a2: "a2 = snd (login (isLocked a1) n2 p2 a1)"
    and a3: "a3 = snd (login (isLocked a2) n3 p3 a2)"
  shows "isLocked a3 \<and>
         isAuthenticated a3 = isAuthenticated a \<and>
         (\<not> isLocked a \<and> attempts a \<le> 2 \<longrightarrow> attempts a3 = 3) \<and>
         login (isLocked a3) n4 p4 a3 =
           (False, a3\<lparr>loginError := ''Account temporarily locked. Please try again later.''\<rparr>) \<and>
         attempts (snd (login (isLocked a3) n4 p4 a3)) = attempts a3 \<and>
         isAuthenticated (snd (login (isLocked a3) n4 p4 a3)) = isAuthenticated a \<and>
         (\<not> isLocked b \<longrightarrow>
            fst (login (isLocked b) n TESTER_PASSWORD b) \<and>
            attempts (snd (login (isLocked b) n TESTER_PASSWORD b)) = 0 \<and>
            isAuthenticated (snd (login (isLocked b) n TESTER_PASSWORD b)))"
proof -
  note s1 = login_wrong(2-4) [OF wrong(1), of a n1, folded a1]
  note s2 = login_wrong(2-4) [OF wrong(2), of a1 n2, folded a2]
  note s3 = login_wrong(2-4) [OF wrong(3), of a2 n3, folded a3]
  have l: "isLocked a3"
    using s1 s2 s3 by (auto split: if_splits)
  have au: "isAuthenticated a3 = isAuthenticated a"
    using s1 s2 s3 by simp
  have cnt: "\<not> isLocked a \<and> attempts a \<le> 2 \<longrightarrow> attempts a3 = 3"
    using s1 s2 s3 by (auto split: if_splits)
  have fourth: "login (isLocked a3) n4 p4 a3 =
           (False, a3\<lparr>loginError := ''Account temporarily locked. Please try again later.''\<rparr>)"
    using l login_locked [of n4 p4 a3] by simp
  show ?thesis
    using l au cnt fourth login_correct [of b n] by simp
qed

theorem login_lockout_witness:
  "js ''a'' \<noteq> TESTER_PASSWORD \<and> \<not> isLocked initial_auth \<and> attempts initial_auth \<le> 2 \<and>
   isLocked fresh_three_wrong \<and> attempts fresh_three_wrong = 3 \<and>
   \<not> fst (login (isLocked fresh_three_wrong) 4 TESTER_PASSWORD fresh_three_wrong) \<and>
   attempts (snd (login (isLocked fresh_three_wrong) 4 TESTER_PASSWORD fresh_three_wrong)) = 3 \<and>
   \<not> isAuthenticated (snd (login (isLocked fresh_three_wrong) 4 TESTER_PASSWORD fresh_three_wrong)) \<and>
   attempts (snd (login (isLocked fresh_two_wrong) 3 TESTER_PASSWORD fresh_two_wrong)) = 0"
proof -
  have u: "\<not> isLocked initial_auth" "attempts initial_auth \<le> 2" "\<not> isAuthenticated initial_auth"
    by (simp_all add: initial_auth_def)
  have u2: "\<not> isLocked fresh_two_wrong"
    using wrong_password
    by (simp add: fresh_two_wrong_def fresh_one_wrong_def login_def initial_auth_def
          MAX_ATTEMPTS_def Let_def)
  from login_lockout [OF wrong_password wrong_password wrong_password
         fresh_one_wrong_def fresh_two_wrong_def fresh_three_wrong_def,
         where ?n4.0 = 4 and ?p4.0 = TESTER_PASSWORD and b = fresh_two_wrong and n = 3]
       u u2 wrong_password
  show ?thesis by (simp add: login_locked)
qed

end
